theory Spec2Isabelle
  imports Main
begin

section \<open>JavaScript values, errors and promises\<close>

text \<open>
  The values that travel through the handlers: request parameters, request bodies, driver
  results and JSON response bodies. Objects are association lists from property names to
  values. Numbers are the integers plus NaN; every other number behaves like a non-zero
  integer wherever this development looks at a number (only in \<open>truthy\<close>).
\<close>

datatype jsval =
    JUndefined
  | JNull
  | JBool bool
  | JNum int
  | JNaN
  | JStr string
  | JArr "jsval list"
  | JObj "(string \<times> jsval) list"

text \<open>The test \<^verbatim>\<open>if(x)\<close>: undefined, null, false, 0, NaN and the empty string are falsy.\<close>

fun truthy :: "jsval \<Rightarrow> bool" where
  "truthy JUndefined = False"
| "truthy JNull = False"
| "truthy (JBool b) = b"
| "truthy (JNum n) = (n \<noteq> 0)"
| "truthy JNaN = False"
| "truthy (JStr s) = (s \<noteq> [])"
| "truthy (JArr xs) = True"
| "truthy (JObj fs) = True"

text \<open>Property access \<^verbatim>\<open>o.k\<close> on an object: a missing property reads as undefined.\<close>

definition get_prop :: "(string \<times> jsval) list \<Rightarrow> string \<Rightarrow> jsval" where
  "get_prop obj k = (case map_of obj k of None \<Rightarrow> JUndefined | Some v \<Rightarrow> v)"

text \<open>
  An Error object: its message, its \<^verbatim>\<open>status\<close> property (absent until somebody assigns
  it) and whatever other properties the thrower put on it. The assignment
  \<^verbatim>\<open>err.status = 503\<close> is the record update \<open>err\<lparr>status := Some 503\<rparr>\<close>: the same object,
  one property changed.
\<close>

record js_error =
  message :: string
  status :: "nat option"
  props :: "(string \<times> jsval) list"

text \<open>A settled promise: resolved with a value or rejected with an Error object.\<close>

datatype promise = Resolved jsval | Rejected js_error

text \<open>
  \<^verbatim>\<open>p.then(f).catch(g)\<close> where \<open>f\<close> does not throw: \<open>f\<close> runs on the resolved value, \<open>g\<close> on
  the rejection. \<^verbatim>\<open>p.then(f)\<close> alone runs nothing on a rejection.
\<close>

definition then_catch :: "promise \<Rightarrow> (jsval \<Rightarrow> 'e list) \<Rightarrow> (js_error \<Rightarrow> 'e list) \<Rightarrow> 'e list" where
  "then_catch p f g = (case p of Resolved v \<Rightarrow> f v | Rejected err \<Rightarrow> g err)"

definition then_only :: "promise \<Rightarrow> (jsval \<Rightarrow> 'e list) \<Rightarrow> 'e list" where
  "then_only p f = (case p of Resolved v \<Rightarrow> f v | Rejected err \<Rightarrow> [])"

section \<open>The contact controller (server/controllers/contact-controller.js)\<close>

text \<open>
  The Contact model and the database behind it are not part of the controller: the driver
  is a parameter, a function from the call a handler issues to the way its promise
  settles. \<open>Find filter lean\<close> is \<^verbatim>\<open>Contact.find(filter)\<close>, with \<^verbatim>\<open>.lean()\<close> when the flag is
  set; \<open>Save doc\<close> is \<^verbatim>\<open>new Contact(doc).save()\<close>; \<open>FindOneAndUpdate filter update options\<close>
  is \<^verbatim>\<open>Contact.findOneAndUpdate(filter, update, options)\<close>.
\<close>

datatype dbcall =
    Find jsval bool
  | FindOne jsval
  | Save jsval
  | FindOneAndRemove jsval
  | FindOneAndUpdate jsval jsval jsval

type_synonym driver = "dbcall \<Rightarrow> promise"

text \<open>
  A request as the handlers read it: the route parameters and the parsed body, both
  objects.
\<close>

record request =
  params :: "(string \<times> jsval) list"
  body :: "(string \<times> jsval) list"

text \<open>
  What a handler does, in order: the driver call it issues, \<^verbatim>\<open>console.log\<close>,
  \<^verbatim>\<open>res.status\<close>, \<^verbatim>\<open>res.json\<close> and \<^verbatim>\<open>next\<close>.
\<close>

datatype event =
    DbCall dbcall
  | ConsoleLog js_error
  | ResStatus nat
  | ResJson jsval
  | Next js_error

definition getContacts :: "driver \<Rightarrow> request \<Rightarrow> event list" where
  "getContacts db req =
     (let call = Find (JObj []) True in
      DbCall call #
      then_catch (db call)
        (\<lambda>results. [ResStatus 200, ResJson results])
        (\<lambda>err. [ConsoleLog err, Next (err\<lparr>status := Some 503\<rparr>)]))"

definition getContact :: "driver \<Rightarrow> request \<Rightarrow> event list" where
  "getContact db req =
     (let id = get_prop (params req) ''id'';
          call = FindOne (JObj [(''id'', id)]) in
      DbCall call #
      then_catch (db call)
        (\<lambda>result.
           if truthy result then [ResStatus 200, ResJson result]
           else
             (let err = \<lparr>message = ''Contact could not be found.'', status = None, props = []\<rparr>
              in [ConsoleLog err, Next (err\<lparr>status := Some 404\<rparr>)]))
        (\<lambda>err. [ConsoleLog err, Next (err\<lparr>status := Some 503\<rparr>)]))"

definition addContact :: "driver \<Rightarrow> request \<Rightarrow> event list" where
  "addContact db req =
     (let newContact = JObj [(''name'', get_prop (body req) ''name''),
                             (''email'', get_prop (body req) ''email''),
                             (''number'', get_prop (body req) ''number'')];
          call = Save newContact in
      DbCall call #
      then_catch (db call)
        (\<lambda>result. [ResStatus 201, ResJson result])
        (\<lambda>err. [ConsoleLog err, Next (err\<lparr>status := Some 503\<rparr>)]))"

definition deleteContact :: "driver \<Rightarrow> request \<Rightarrow> event list" where
  "deleteContact db req =
     (let id = get_prop (params req) ''id'';
          call = FindOneAndRemove (JObj [(''id'', id)]) in
      DbCall call #
      then_catch (db call)
        (\<lambda>result. [ResStatus 200, ResJson result])
        (\<lambda>err. [ConsoleLog err, Next (err\<lparr>status := Some 404\<rparr>)]))"

definition editContact :: "driver \<Rightarrow> request \<Rightarrow> event list" where
  "editContact db req =
     (let id = get_prop (params req) ''id'';
          call = FindOneAndUpdate (JObj [(''id'', id)]) (JObj (body req))
                   (JObj [(''new'', JBool True)]) in
      DbCall call #
      then_catch (db call)
        (\<lambda>result. [ResStatus 200, ResJson result])
        (\<lambda>err. [ConsoleLog err, Next (err\<lparr>status := Some 404\<rparr>)]))"

subsection \<open>The router\<close>

text \<open>
  A router is the list of its routes in registration order. A route holds its method, its
  path and its callbacks in the order they were passed: \<open>Middleware m\<close> for a middleware
  value handed in from outside, \<open>Handler h\<close> for one of the controller's own functions.
\<close>

datatype http_method = GET | POST | DELETE | PUT

datatype handler = GetContacts | GetContact | AddContact | DeleteContact | EditContact

datatype 'mw callback = Middleware 'mw | Handler handler

record 'mw route =
  route_method :: http_method
  route_path :: string
  route_stack :: "'mw callback list"

definition router_add ::
  "http_method \<Rightarrow> string \<Rightarrow> 'mw callback list \<Rightarrow> 'mw route list \<Rightarrow> 'mw route list" where
  "router_add m p cbs router =
     router @ [\<lparr>route_method = m, route_path = p, route_stack = cbs\<rparr>]"

definition contact_controller :: "'mw \<Rightarrow> 'mw route list" where
  "contact_controller protected =
     (let router = [];
          router = router_add GET ''/'' [Middleware protected, Handler GetContacts] router;
          router = router_add GET ''/:id'' [Middleware protected, Handler GetContact] router;
          router = router_add POST ''/'' [Middleware protected, Handler AddContact] router;
          router = router_add DELETE ''/:id'' [Middleware protected, Handler DeleteContact] router;
          router = router_add PUT ''/:id'' [Middleware protected, Handler EditContact] router
      in router)"

text \<open>Calling the function a route's handler names.\<close>

fun run_handler :: "handler \<Rightarrow> driver \<Rightarrow> request \<Rightarrow> event list" where
  "run_handler GetContacts db req = getContacts db req"
| "run_handler GetContact db req = getContact db req"
| "run_handler AddContact db req = addContact db req"
| "run_handler DeleteContact db req = deleteContact db req"
| "run_handler EditContact db req = editContact db req"

text \<open>
  The driver call each handler builds from the request (the expression before
  \<^verbatim>\<open>.then\<close> in its body), for stating what the driver answered.
\<close>

fun db_call_of :: "handler \<Rightarrow> request \<Rightarrow> dbcall" where
  "db_call_of GetContacts req = Find (JObj []) True"
| "db_call_of GetContact req = FindOne (JObj [(''id'', get_prop (params req) ''id'')])"
| "db_call_of AddContact req =
     Save (JObj [(''name'', get_prop (body req) ''name''),
                 (''email'', get_prop (body req) ''email''),
                 (''number'', get_prop (body req) ''number'')])"
| "db_call_of DeleteContact req = FindOneAndRemove (JObj [(''id'', get_prop (params req) ''id'')])"
| "db_call_of EditContact req =
     FindOneAndUpdate (JObj [(''id'', get_prop (params req) ''id'')]) (JObj (body req))
       (JObj [(''new'', JBool True)])"

text \<open>
  Reading a route: the controller functions on its stack, and whether middleware \<open>m\<close>
  stands on the stack before the first of them.
\<close>

fun handlers_on :: "'mw callback list \<Rightarrow> handler list" where
  "handlers_on [] = []"
| "handlers_on (Middleware m # cs) = handlers_on cs"
| "handlers_on (Handler h # cs) = h # handlers_on cs"

fun guarded_by :: "'mw \<Rightarrow> 'mw callback list \<Rightarrow> bool" where
  "guarded_by m [] = False"
| "guarded_by m (Middleware m' # cs) = (m' = m \<or> guarded_by m cs)"
| "guarded_by m (Handler h # cs) = False"

subsection \<open>Reading a trace\<close>

text \<open>
  The status codes an outcome carries: the code set on the response, and the
  \<^verbatim>\<open>status\<close> of an error handed to \<^verbatim>\<open>next\<close> (\<open>None\<close> if it has none).
\<close>

fun status_of :: "event \<Rightarrow> nat option list" where
  "status_of (ResStatus n) = [Some n]"
| "status_of (Next err) = [status err]"
| "status_of (DbCall c) = []"
| "status_of (ConsoleLog err) = []"
| "status_of (ResJson v) = []"

definition outcome_statuses :: "event list \<Rightarrow> nat option list" where
  "outcome_statuses t = concat (map status_of t)"

text \<open>The driver calls of a trace, the bodies it sent and the errors it forwarded.\<close>

fun call_of :: "event \<Rightarrow> dbcall list" where
  "call_of (DbCall c) = [c]"
| "call_of (ConsoleLog err) = []"
| "call_of (ResStatus n) = []"
| "call_of (ResJson v) = []"
| "call_of (Next err) = []"

definition issued :: "event list \<Rightarrow> dbcall list" where
  "issued t = concat (map call_of t)"

fun sent_of :: "event \<Rightarrow> jsval list" where
  "sent_of (ResJson v) = [v]"
| "sent_of (DbCall c) = []"
| "sent_of (ConsoleLog err) = []"
| "sent_of (ResStatus n) = []"
| "sent_of (Next err) = []"

definition sent_bodies :: "event list \<Rightarrow> jsval list" where
  "sent_bodies t = concat (map sent_of t)"

fun forwarded_of :: "event \<Rightarrow> js_error list" where
  "forwarded_of (Next err) = [err]"
| "forwarded_of (DbCall c) = []"
| "forwarded_of (ConsoleLog err) = []"
| "forwarded_of (ResStatus n) = []"
| "forwarded_of (ResJson v) = []"

definition forwarded :: "event list \<Rightarrow> js_error list" where
  "forwarded t = concat (map forwarded_of t)"

subsection \<open>Drivers and requests to run the handlers on\<close>

text \<open>A database that is down, an empty collection, and a collection holding one contact.\<close>

definition conn_refused :: js_error where
  "conn_refused = \<lparr>message = ''connection refused'', status = None,
                   props = [(''name'', JStr ''MongoError'')]\<rparr>"

definition db_down :: driver where
  "db_down c = Rejected conn_refused"

definition ada :: jsval where
  "ada = JObj [(''id'', JStr ''7''), (''name'', JStr ''Ada''),
               (''email'', JStr ''ada@example.org''), (''number'', JStr ''555-0100'')]"

definition db_empty :: driver where
  "db_empty c =
     (case c of
        Find q l \<Rightarrow> Resolved (JArr [])
      | FindOne q \<Rightarrow> Resolved JNull
      | Save doc \<Rightarrow> Resolved doc
      | FindOneAndRemove q \<Rightarrow> Resolved JNull
      | FindOneAndUpdate q u opts \<Rightarrow> Resolved JNull)"

definition db_ada :: driver where
  "db_ada c =
     (case c of
        Find q l \<Rightarrow> Resolved (JArr [ada])
      | FindOne q \<Rightarrow> Resolved (if q = JObj [(''id'', JStr ''7'')] then ada else JNull)
      | Save doc \<Rightarrow> Resolved doc
      | FindOneAndRemove q \<Rightarrow> Resolved (if q = JObj [(''id'', JStr ''7'')] then ada else JNull)
      | FindOneAndUpdate q u opts \<Rightarrow>
          Resolved (if q = JObj [(''id'', JStr ''7'')] then ada else JNull))"

definition req7 :: request where
  "req7 = \<lparr>params = [(''id'', JStr ''7'')],
           body = [(''name'', JStr ''Ada''), (''email'', JStr ''ada@example.org''),
                   (''number'', JStr ''555-0100'')]\<rparr>"

definition req42 :: request where
  "req42 = \<lparr>params = [(''id'', JStr ''42'')],
            body = [(''name'', JStr ''Ada''), (''email'', JStr ''ada@example.org''),
                    (''number'', JStr ''555-0100''), (''admin'', JBool True)]\<rparr>"

section \<open>The client router (client/app/app.js)\<close>

text \<open>
  A guard is called with \<^verbatim>\<open>$state\<close> and the session service. Its only effect is on
  \<^verbatim>\<open>$state\<close>: the list of \<^verbatim>\<open>$state.go\<close> calls it makes. The session service is not part of
  this file, so the way the promise of \<^verbatim>\<open>sessionService.getCurrentUser()\<close> settles is the
  guard's parameter.
\<close>

datatype transition = Go string

definition alreadyLoggedIn :: "promise \<Rightarrow> transition list" where
  "alreadyLoggedIn getCurrentUser =
     then_only getCurrentUser
       (\<lambda>response. if truthy response then [Go ''dashboard''] else [])"

definition notLoggedIn :: "promise \<Rightarrow> transition list" where
  "notLoggedIn getCurrentUser =
     then_only getCurrentUser
       (\<lambda>response. if \<not> truthy response then [Go ''login''] else [])"

text \<open>
  The functions a state's \<^verbatim>\<open>resolve\<close> block can hold: an anonymous function returning a
  title, or one of the two guards.
\<close>

datatype resolve_fn = Returns string | AlreadyLoggedIn | NotLoggedIn

record state_decl =
  name :: string
  url :: string
  templateUrl :: string
  controller :: "string option"
  controllerAs :: "string option"
  resolve :: "(string \<times> resolve_fn) list"

definition loginState :: state_decl where
  "loginState =
     \<lparr>name = ''login'', url = ''/login'',
      templateUrl = ''/features/login/login.html'',
      controller = None, controllerAs = None,
      resolve = [(''$title'', Returns ''Login''), (''alreadyLoggedIn'', AlreadyLoggedIn)]\<rparr>"

definition dashboardState :: state_decl where
  "dashboardState =
     \<lparr>name = ''dashboard'', url = ''/'',
      templateUrl = ''/features/dashboard/dashboard.html'',
      controller = Some ''DashboardController'', controllerAs = Some ''dashboardCtrl'',
      resolve = [(''$title'', Returns ''Dashboard''), (''notLoggedIn'', NotLoggedIn)]\<rparr>"

definition contactsIndexState :: state_decl where
  "contactsIndexState =
     \<lparr>name = ''contacts'', url = ''/contacts'',
      templateUrl = ''/features/contact/contact.index.html'',
      controller = Some ''ContactController'', controllerAs = Some ''contactCtrl'',
      resolve = [(''$title'', Returns ''Contacts''), (''notLoggedIn'', NotLoggedIn)]\<rparr>"

definition contactsNewState :: state_decl where
  "contactsNewState =
     \<lparr>name = ''contacts-new'', url = ''/contacts/new'',
      templateUrl = ''/features/contact/contact.update.html'',
      controller = Some ''ContactController'', controllerAs = Some ''contactCtrl'',
      resolve = [(''$title'', Returns ''New Contact''), (''notLoggedIn'', NotLoggedIn)]\<rparr>"

definition contactsEditState :: state_decl where
  "contactsEditState =
     \<lparr>name = ''contacts-edit'', url = ''/contacts/:id'',
      templateUrl = ''/features/contact/contact.update.html'',
      controller = Some ''ContactController'', controllerAs = Some ''contactCtrl'',
      resolve = [(''$title'', Returns ''Edit Contact''), (''notLoggedIn'', NotLoggedIn)]\<rparr>"

definition unauthorizedState :: state_decl where
  "unauthorizedState =
     \<lparr>name = ''unauthorized'', url = ''/401'',
      templateUrl = ''/features/error/401.html'',
      controller = None, controllerAs = None,
      resolve = [(''$title'', Returns ''401 - Unauthorized'')]\<rparr>"

definition notFoundState :: state_decl where
  "notFoundState =
     \<lparr>name = ''notFound'', url = ''*path'',
      templateUrl = ''/features/error/404.html'',
      controller = None, controllerAs = None,
      resolve = [(''$title'', Returns ''404 - Not Found'')]\<rparr>"

text \<open>
  The two providers \<^verbatim>\<open>config\<close> writes to: the location provider's HTML5 mode and the state
  provider's states, in registration order.
\<close>

record providers =
  html5Mode :: bool
  states :: "state_decl list"

definition state_register :: "state_decl \<Rightarrow> providers \<Rightarrow> providers" where
  "state_register s p = p\<lparr>states := states p @ [s]\<rparr>"

definition config :: "providers \<Rightarrow> providers" where
  "config p0 =
     (let p = p0\<lparr>html5Mode := True\<rparr>;
          p = state_register loginState p;
          p = state_register dashboardState p;
          p = state_register contactsIndexState p;
          p = state_register contactsNewState p;
          p = state_register contactsEditState p;
          p = state_register unauthorizedState p;
          p = state_register notFoundState p
      in p)"

definition fresh_providers :: providers where
  "fresh_providers = \<lparr>html5Mode = False, states = []\<rparr>"

text \<open>
  Resolving a state calls every function of its \<^verbatim>\<open>resolve\<close> block; the title functions
  touch nothing, the guards may call \<^verbatim>\<open>$state.go\<close>.
\<close>

fun run_resolve :: "resolve_fn \<Rightarrow> promise \<Rightarrow> transition list" where
  "run_resolve (Returns title) getCurrentUser = []"
| "run_resolve AlreadyLoggedIn getCurrentUser = alreadyLoggedIn getCurrentUser"
| "run_resolve NotLoggedIn getCurrentUser = notLoggedIn getCurrentUser"

definition resolve_transitions :: "state_decl \<Rightarrow> promise \<Rightarrow> transition list" where
  "resolve_transitions s getCurrentUser =
     concat (map (\<lambda>entry. run_resolve (snd entry) getCurrentUser) (resolve s))"

text \<open>Session answers to run the guards on.\<close>

definition user_ada :: promise where
  "user_ada = Resolved (JObj [(''username'', JStr ''ada'')])"

definition no_user :: promise where
  "no_user = Resolved JNull"

definition session_down :: promise where
  "session_down = Rejected conn_refused"

section \<open>Properties of the contact controller\<close>

lemma run_handler_shape:
  "run_handler h db req =
     DbCall (db_call_of h req) #
     (case db (db_call_of h req) of
        Resolved v \<Rightarrow>
          (if h = GetContact \<and> \<not> truthy v
           then [ConsoleLog \<lparr>message = ''Contact could not be found.'', status = None, props = []\<rparr>,
                 Next \<lparr>message = ''Contact could not be found.'', status = Some 404, props = []\<rparr>]
           else [ResStatus (if h = AddContact then 201 else 200), ResJson v])
      | Rejected err \<Rightarrow>
          [ConsoleLog err,
           Next (err\<lparr>status := Some (if h = DeleteContact \<or> h = EditContact then 404 else 503)\<rparr>)])"
  by (cases h; cases "db (db_call_of h req)")
     (simp_all add: getContacts_def getContact_def addContact_def deleteContact_def
        editContact_def then_catch_def Let_def)

text \<open>
  C1. Whatever the handler, the driver's behaviour and the request, the outcome carries
  exactly one status code, set on the response or on the error given to next, and it is
  200, 201, 404 or 503.
\<close>

theorem handler_status_codes:
  "outcome_statuses (run_handler h db req) \<in> {[Some 200], [Some 201], [Some 404], [Some 503]}"
  by (cases h; cases "db (db_call_of h req)")
     (simp_all add: run_handler_shape outcome_statuses_def del: run_handler.simps)

text \<open>
  C2. When the driver call of a handler rejects with an error, the handler logs it, puts a
  status code on that same error (404 in deleteContact and editContact, 503 in the other
  three) and hands it to next. Nothing else happens: the driver is called once, no status
  is set on the response and no body is sent.
\<close>

theorem rejection_is_forwarded:
  assumes "db (db_call_of h req) = Rejected err"
  shows "run_handler h db req =
           [DbCall (db_call_of h req), ConsoleLog err,
            Next (err\<lparr>status := Some (if h = DeleteContact \<or> h = EditContact then 404 else 503)\<rparr>)]
         \<and> issued (run_handler h db req) = [db_call_of h req]
         \<and> sent_bodies (run_handler h db req) = []
         \<and> map message (forwarded (run_handler h db req)) = [message err]
         \<and> map props (forwarded (run_handler h db req)) = [props err]"
  using assms
  by (simp add: run_handler_shape issued_def sent_bodies_def forwarded_def
        del: run_handler.simps)

theorem rejection_is_forwarded_witness:
  "db_down (db_call_of EditContact req7) = Rejected conn_refused
   \<and> run_handler EditContact db_down req7 =
       [DbCall (FindOneAndUpdate (JObj [(''id'', JStr ''7'')])
                  (JObj [(''name'', JStr ''Ada''), (''email'', JStr ''ada@example.org''),
                         (''number'', JStr ''555-0100'')])
                  (JObj [(''new'', JBool True)])),
        ConsoleLog conn_refused,
        Next \<lparr>message = ''connection refused'', status = Some 404,
              props = [(''name'', JStr ''MongoError'')]\<rparr>]
   \<and> issued (run_handler EditContact db_down req7) = [db_call_of EditContact req7]
   \<and> sent_bodies (run_handler EditContact db_down req7) = []"
proof -
  have rejected: "db_down (db_call_of EditContact req7) = Rejected conn_refused"
    by (simp add: db_down_def)
  have call: "db_call_of EditContact req7 =
      FindOneAndUpdate (JObj [(''id'', JStr ''7'')])
        (JObj [(''name'', JStr ''Ada''), (''email'', JStr ''ada@example.org''),
               (''number'', JStr ''555-0100'')])
        (JObj [(''new'', JBool True)])"
    by (simp add: req7_def get_prop_def)
  have err: "conn_refused\<lparr>status := Some 404\<rparr> =
      \<lparr>message = ''connection refused'', status = Some 404,
       props = [(''name'', JStr ''MongoError'')]\<rparr>"
    by (simp add: conn_refused_def)
  from rejection_is_forwarded [of db_down EditContact req7 conn_refused, OF rejected]
    rejected call err show ?thesis
    by (simp add: issued_def sent_bodies_def)
qed

text \<open>
  C4. For every request and every driver, the first thing a handler does is issue the
  driver call built from the request, and it issues exactly that one call: no request is
  turned away before the driver has been asked.
\<close>

theorem driver_call_unconditional:
  "take 1 (run_handler h db req) = [DbCall (db_call_of h req)]
   \<and> issued (run_handler h db req) = [db_call_of h req]"
  by (cases "db (db_call_of h req)")
     (simp_all add: run_handler_shape issued_def del: run_handler.simps)

theorem driver_call_unconditional_witness:
  "take 1 (run_handler AddContact db_down \<lparr>params = [], body = []\<rparr>) =
     [DbCall (Save (JObj [(''name'', JUndefined), (''email'', JUndefined),
                          (''number'', JUndefined)]))]
   \<and> issued (run_handler EditContact db_empty \<lparr>params = [], body = []\<rparr>) =
     [FindOneAndUpdate (JObj [(''id'', JUndefined)]) (JObj []) (JObj [(''new'', JBool True)])]"
  using driver_call_unconditional [of AddContact db_down "\<lparr>params = [], body = []\<rparr>"]
    driver_call_unconditional [of EditContact db_empty "\<lparr>params = [], body = []\<rparr>"]
  by (simp add: get_prop_def)

text \<open>
  C10. addContact reads only the name, email and number of the request body: two requests
  whose bodies agree on these three properties make it issue the same save, and so, for
  the same driver, do the same thing from then on.
\<close>

theorem addContact_reads_three_fields:
  assumes "get_prop (body r1) ''name'' = get_prop (body r2) ''name''"
      and "get_prop (body r1) ''email'' = get_prop (body r2) ''email''"
      and "get_prop (body r1) ''number'' = get_prop (body r2) ''number''"
  shows "issued (addContact db r1) = issued (addContact db r2)
         \<and> addContact db r1 = addContact db r2"
  using assms by (simp add: addContact_def)

theorem addContact_reads_three_fields_witness:
  "body req7 \<noteq> body req42
   \<and> issued (addContact db_ada req7) = issued (addContact db_ada req42)
   \<and> addContact db_ada req7 = addContact db_ada req42
   \<and> addContact db_ada req42 =
       [DbCall (Save (JObj [(''name'', JStr ''Ada''), (''email'', JStr ''ada@example.org''),
                            (''number'', JStr ''555-0100'')])),
        ResStatus 201,
        ResJson (JObj [(''name'', JStr ''Ada''), (''email'', JStr ''ada@example.org''),
                       (''number'', JStr ''555-0100'')])]"
proof -
  have n: "get_prop (body req7) ''name'' = get_prop (body req42) ''name''"
    by (simp add: req7_def req42_def get_prop_def)
  have e: "get_prop (body req7) ''email'' = get_prop (body req42) ''email''"
    by (simp add: req7_def req42_def get_prop_def)
  have m: "get_prop (body req7) ''number'' = get_prop (body req42) ''number''"
    by (simp add: req7_def req42_def get_prop_def)
  have differ: "body req7 \<noteq> body req42"
    by (simp add: req7_def req42_def)
  have run: "addContact db_ada req42 =
       [DbCall (Save (JObj [(''name'', JStr ''Ada''), (''email'', JStr ''ada@example.org''),
                            (''number'', JStr ''555-0100'')])),
        ResStatus 201,
        ResJson (JObj [(''name'', JStr ''Ada''), (''email'', JStr ''ada@example.org''),
                       (''number'', JStr ''555-0100'')])]"
    by (simp add: addContact_def req42_def get_prop_def db_ada_def then_catch_def Let_def)
  from addContact_reads_three_fields [OF n e m, of db_ada] differ run show ?thesis
    by simp
qed

text \<open>
  C3, as the code has it. When the driver call resolves, the handler sends the resolved
  value itself as the JSON body, with status 201 in addContact and 200 elsewhere, and does
  nothing else. The one exception is getContact on a falsy result (findOne found no
  document): it sends no body and forwards a 404 error instead.
\<close>

theorem success_is_passed_through:
  assumes "db (db_call_of h req) = Resolved v"
  shows "run_handler h db req =
           (if h = GetContact \<and> \<not> truthy v
            then [DbCall (db_call_of h req),
                  ConsoleLog \<lparr>message = ''Contact could not be found.'', status = None,
                              props = []\<rparr>,
                  Next \<lparr>message = ''Contact could not be found.'', status = Some 404,
                        props = []\<rparr>]
            else [DbCall (db_call_of h req),
                  ResStatus (if h = AddContact then 201 else 200), ResJson v])
         \<and> sent_bodies (run_handler h db req) = (if h = GetContact \<and> \<not> truthy v then [] else [v])"
  using assms
  by (simp add: run_handler_shape sent_bodies_def del: run_handler.simps)

theorem success_is_passed_through_witness:
  "db_ada (db_call_of DeleteContact req7) = Resolved ada
   \<and> run_handler DeleteContact db_ada req7 =
       [DbCall (FindOneAndRemove (JObj [(''id'', JStr ''7'')])), ResStatus 200, ResJson ada]
   \<and> sent_bodies (run_handler DeleteContact db_ada req7) = [ada]"
proof -
  have call: "db_call_of DeleteContact req7 = FindOneAndRemove (JObj [(''id'', JStr ''7'')])"
    by (simp add: req7_def get_prop_def)
  have resolved: "db_ada (db_call_of DeleteContact req7) = Resolved ada"
    by (simp add: db_ada_def req7_def get_prop_def)
  from success_is_passed_through [of db_ada DeleteContact req7 ada, OF resolved]
    resolved call show ?thesis
    by (simp add: sent_bodies_def)
qed

text \<open>
  C3 as stated fails for getContact: with no contact of id 42, findOne resolves with null,
  and getContact does not send that result; it sends no body at all.
\<close>

theorem success_is_passed_through_counterexample:
  "db_empty (db_call_of GetContact req42) = Resolved JNull
   \<and> run_handler GetContact db_empty req42 =
       [DbCall (FindOne (JObj [(''id'', JStr ''42'')])),
        ConsoleLog \<lparr>message = ''Contact could not be found.'', status = None, props = []\<rparr>,
        Next \<lparr>message = ''Contact could not be found.'', status = Some 404, props = []\<rparr>]
   \<and> sent_bodies (run_handler GetContact db_empty req42) = []"
  by (simp add: getContact_def db_empty_def req42_def get_prop_def then_catch_def Let_def
        sent_bodies_def)

text \<open>
  C8. In deleteContact and editContact, a driver call that resolves with no document
  (null) is answered with status 200 and the body null. The outcome carries 404 exactly
  when the driver call rejects, and 200 exactly when it resolves, whatever it resolves
  with.
\<close>

theorem absent_contact_answers_200:
  assumes "h = DeleteContact \<or> h = EditContact"
  shows "(db (db_call_of h req) = Resolved JNull \<longrightarrow>
            run_handler h db req =
              [DbCall (db_call_of h req), ResStatus 200, ResJson JNull])
         \<and> ((outcome_statuses (run_handler h db req) = [Some 404]) =
              (\<exists>err. db (db_call_of h req) = Rejected err))
         \<and> ((outcome_statuses (run_handler h db req) = [Some 200]) =
              (\<exists>v. db (db_call_of h req) = Resolved v))"
  using assms
  by (cases "db (db_call_of h req)")
     (auto simp add: run_handler_shape outcome_statuses_def simp del: run_handler.simps)

theorem absent_contact_answers_200_witness:
  "db_empty (db_call_of DeleteContact req42) = Resolved JNull
   \<and> run_handler DeleteContact db_empty req42 =
       [DbCall (FindOneAndRemove (JObj [(''id'', JStr ''42'')])), ResStatus 200, ResJson JNull]
   \<and> outcome_statuses (run_handler DeleteContact db_empty req42) \<noteq> [Some 404]"
proof -
  have call: "db_call_of DeleteContact req42 = FindOneAndRemove (JObj [(''id'', JStr ''42'')])"
    by (simp add: req42_def get_prop_def)
  have resolved: "db_empty (db_call_of DeleteContact req42) = Resolved JNull"
    by (simp add: call db_empty_def)
  have h: "DeleteContact = DeleteContact \<or> DeleteContact = EditContact"
    by simp
  from absent_contact_answers_200 [of DeleteContact db_empty req42, OF h] resolved call
  show ?thesis
    by (simp add: outcome_statuses_def)
qed

text \<open>
  C9. getContact has three outcomes and the driver's answer alone picks one. Status 200
  with the result as body exactly when findOne resolves with a truthy value (a document is
  an object, and objects are truthy); a fresh error with status 404 exactly when it
  resolves with a falsy value (no document is null, and null is falsy); the driver's own
  error with status 503 exactly when it rejects.
\<close>

theorem getContact_outcomes:
  "((outcome_statuses (getContact db req) = [Some 200]) =
      (\<exists>v. db (db_call_of GetContact req) = Resolved v \<and> truthy v))
   \<and> ((outcome_statuses (getContact db req) = [Some 404]) =
      (\<exists>v. db (db_call_of GetContact req) = Resolved v \<and> \<not> truthy v))
   \<and> ((outcome_statuses (getContact db req) = [Some 503]) =
      (\<exists>err. db (db_call_of GetContact req) = Rejected err))
   \<and> (db (db_call_of GetContact req) = Resolved (JObj fs) \<longrightarrow>
        getContact db req =
          [DbCall (db_call_of GetContact req), ResStatus 200, ResJson (JObj fs)])
   \<and> (db (db_call_of GetContact req) = Resolved JNull \<longrightarrow>
        getContact db req =
          [DbCall (db_call_of GetContact req),
           ConsoleLog \<lparr>message = ''Contact could not be found.'', status = None, props = []\<rparr>,
           Next \<lparr>message = ''Contact could not be found.'', status = Some 404, props = []\<rparr>])
   \<and> (db (db_call_of GetContact req) = Rejected err \<longrightarrow>
        getContact db req =
          [DbCall (db_call_of GetContact req), ConsoleLog err,
           Next (err\<lparr>status := Some 503\<rparr>)])"
  using run_handler_shape [of GetContact db req]
  by (cases "db (db_call_of GetContact req)") (auto simp add: outcome_statuses_def)

theorem getContact_outcomes_witness:
  "db_ada (db_call_of GetContact req7) = Resolved ada
   \<and> getContact db_ada req7 =
       [DbCall (FindOne (JObj [(''id'', JStr ''7'')])), ResStatus 200, ResJson ada]
   \<and> db_ada (db_call_of GetContact req42) = Resolved JNull
   \<and> getContact db_ada req42 =
       [DbCall (FindOne (JObj [(''id'', JStr ''42'')])),
        ConsoleLog \<lparr>message = ''Contact could not be found.'', status = None, props = []\<rparr>,
        Next \<lparr>message = ''Contact could not be found.'', status = Some 404, props = []\<rparr>]
   \<and> db_down (db_call_of GetContact req7) = Rejected conn_refused
   \<and> getContact db_down req7 =
       [DbCall (FindOne (JObj [(''id'', JStr ''7'')])), ConsoleLog conn_refused,
        Next (conn_refused\<lparr>status := Some 503\<rparr>)]"
proof -
  have call7: "db_call_of GetContact req7 = FindOne (JObj [(''id'', JStr ''7'')])"
    by (simp add: req7_def get_prop_def)
  have call42: "db_call_of GetContact req42 = FindOne (JObj [(''id'', JStr ''42'')])"
    by (simp add: req42_def get_prop_def)
  have found: "db_ada (db_call_of GetContact req7) =
      Resolved (JObj [(''id'', JStr ''7''), (''name'', JStr ''Ada''),
                      (''email'', JStr ''ada@example.org''), (''number'', JStr ''555-0100'')])"
    by (simp add: db_ada_def ada_def req7_def get_prop_def)
  have absent: "db_ada (db_call_of GetContact req42) = Resolved JNull"
    by (simp add: db_ada_def req42_def get_prop_def)
  have down: "db_down (db_call_of GetContact req7) = Rejected conn_refused"
    by (simp add: db_down_def)
  from getContact_outcomes [of db_ada req7 _ conn_refused] found
  have r1: "getContact db_ada req7 = [DbCall (db_call_of GetContact req7), ResStatus 200, ResJson ada]"
    by (simp add: ada_def)
  from getContact_outcomes [of db_ada req42 "[]" conn_refused] absent
  have r2: "getContact db_ada req42 =
      [DbCall (db_call_of GetContact req42),
       ConsoleLog \<lparr>message = ''Contact could not be found.'', status = None, props = []\<rparr>,
       Next \<lparr>message = ''Contact could not be found.'', status = Some 404, props = []\<rparr>]"
    by simp
  from getContact_outcomes [of db_down req7 "[]" conn_refused] down
  have r3: "getContact db_down req7 =
      [DbCall (db_call_of GetContact req7), ConsoleLog conn_refused,
       Next (conn_refused\<lparr>status := Some 503\<rparr>)]"
    by simp
  from r1 r2 r3 found absent down call7 call42 show ?thesis
    by (simp add: ada_def)
qed

text \<open>
  C6. The controller's router holds exactly five routes, in this order: GET /, GET /:id,
  POST /, DELETE /:id and PUT /:id. Each route carries one handler function, the five
  handlers are pairwise different, and on every route the protected middleware stands
  before the handler.
\<close>

theorem contact_routes:
  "map (\<lambda>r. (route_method r, route_path r, handlers_on (route_stack r)))
       (contact_controller protected) =
     [(GET, ''/'', [GetContacts]), (GET, ''/:id'', [GetContact]), (POST, ''/'', [AddContact]),
      (DELETE, ''/:id'', [DeleteContact]), (PUT, ''/:id'', [EditContact])]
   \<and> length (contact_controller protected) = 5
   \<and> distinct (concat (map (\<lambda>r. handlers_on (route_stack r)) (contact_controller protected)))
   \<and> list_all (\<lambda>r. guarded_by protected (route_stack r)) (contact_controller protected)
   \<and> map route_stack (contact_controller protected) =
        map (\<lambda>h. [Middleware protected, Handler h])
          [GetContacts, GetContact, AddContact, DeleteContact, EditContact]"
  by (simp add: contact_controller_def router_add_def)

section \<open>Properties of the client router\<close>

lemma alreadyLoggedIn_cases:
  "alreadyLoggedIn p =
     (if \<exists>v. p = Resolved v \<and> truthy v then [Go ''dashboard''] else [])"
  by (cases p) (simp_all add: alreadyLoggedIn_def then_only_def)

lemma notLoggedIn_cases:
  "notLoggedIn p =
     (if \<exists>v. p = Resolved v \<and> \<not> truthy v then [Go ''login''] else [])"
  by (cases p) (simp_all add: notLoggedIn_def then_only_def)

text \<open>
  C5. Resolving the login state goes to the dashboard exactly when the session service
  resolves with a truthy current user, and otherwise goes nowhere. Resolving the dashboard
  state or any of the three contacts states goes to the login state exactly when the
  session service resolves with a falsy current user, and otherwise goes nowhere. A
  session service whose promise rejects reports neither, and no guard moves. The two error
  states have no guard.
\<close>

theorem router_guards:
  "resolve_transitions loginState p =
     (if \<exists>v. p = Resolved v \<and> truthy v then [Go ''dashboard''] else [])
   \<and> resolve_transitions dashboardState p =
       (if \<exists>v. p = Resolved v \<and> \<not> truthy v then [Go ''login''] else [])
   \<and> resolve_transitions contactsIndexState p =
       (if \<exists>v. p = Resolved v \<and> \<not> truthy v then [Go ''login''] else [])
   \<and> resolve_transitions contactsNewState p =
       (if \<exists>v. p = Resolved v \<and> \<not> truthy v then [Go ''login''] else [])
   \<and> resolve_transitions contactsEditState p =
       (if \<exists>v. p = Resolved v \<and> \<not> truthy v then [Go ''login''] else [])
   \<and> resolve_transitions unauthorizedState p = []
   \<and> resolve_transitions notFoundState p = []
   \<and> resolve_transitions loginState (Rejected err) = []
   \<and> resolve_transitions dashboardState (Rejected err) = []"
  by (simp add: resolve_transitions_def loginState_def dashboardState_def
        contactsIndexState_def contactsNewState_def contactsEditState_def
        unauthorizedState_def notFoundState_def alreadyLoggedIn_cases notLoggedIn_cases)

theorem router_guards_witness:
  "resolve_transitions loginState user_ada = [Go ''dashboard'']
   \<and> resolve_transitions loginState no_user = []
   \<and> resolve_transitions dashboardState no_user = [Go ''login'']
   \<and> resolve_transitions dashboardState user_ada = []
   \<and> resolve_transitions contactsEditState session_down = []"
  using router_guards [of user_ada conn_refused] router_guards [of no_user conn_refused]
    router_guards [of session_down conn_refused]
  by (simp add: user_ada_def no_user_def session_down_def)

text \<open>
  C7. Starting from providers with no state, config registers exactly seven states: login
  at /login, dashboard at /, contacts at /contacts, contacts-new at /contacts/new,
  contacts-edit at /contacts/:id, unauthorized at /401 with the 401 page, and notFound
  with the 404 page at the pattern *path, registered last. On any providers it appends
  these seven, in this order, to the states already there.
\<close>

theorem registered_states:
  "map (\<lambda>s. (name s, url s, templateUrl s)) (states (config fresh_providers)) =
     [(''login'', ''/login'', ''/features/login/login.html''),
      (''dashboard'', ''/'', ''/features/dashboard/dashboard.html''),
      (''contacts'', ''/contacts'', ''/features/contact/contact.index.html''),
      (''contacts-new'', ''/contacts/new'', ''/features/contact/contact.update.html''),
      (''contacts-edit'', ''/contacts/:id'', ''/features/contact/contact.update.html''),
      (''unauthorized'', ''/401'', ''/features/error/401.html''),
      (''notFound'', ''*path'', ''/features/error/404.html'')]
   \<and> length (states (config fresh_providers)) = 7
   \<and> distinct (map name (states (config fresh_providers)))
   \<and> states (config p) =
        states p @ [loginState, dashboardState, contactsIndexState, contactsNewState,
                    contactsEditState, unauthorizedState, notFoundState]"
  by (simp add: config_def state_register_def fresh_providers_def loginState_def
        dashboardState_def contactsIndexState_def contactsNewState_def contactsEditState_def
        unauthorizedState_def notFoundState_def)

end
